theory Spec2Isabelle
  imports Complex_Main "HOL-Library.Word" "HOL-Library.Stream" "HOL-Library.Multiset"
begin

section \<open>Random forest (package randomForest): data model\<close>

text \<open>
  Go's \<open>float64\<close> is modelled by its four kinds of value.  A finite value carries the
  exact real number: rounding and overflow of finite arithmetic are not modelled, and the
  two zeros are identified (every divisor that can be zero in this program is the
  conversion of a slice length, which is \<open>+0\<close>).  Infinities and NaN are kept because
  the control flow of the split search depends on them.
\<close>

datatype float64 = Fin real | PInf | NInf | NaN

fun fneg :: "float64 \<Rightarrow> float64" where
  "fneg (Fin a) = Fin (- a)"
| "fneg PInf = NInf"
| "fneg NInf = PInf"
| "fneg NaN = NaN"

fun fadd :: "float64 \<Rightarrow> float64 \<Rightarrow> float64" where
  "fadd NaN b = NaN"
| "fadd a NaN = NaN"
| "fadd PInf NInf = NaN"
| "fadd NInf PInf = NaN"
| "fadd PInf b = PInf"
| "fadd a PInf = PInf"
| "fadd NInf b = NInf"
| "fadd a NInf = NInf"
| "fadd (Fin a) (Fin b) = Fin (a + b)"

definition fsub :: "float64 \<Rightarrow> float64 \<Rightarrow> float64" where
  "fsub a b = fadd a (fneg b)"

fun fmul :: "float64 \<Rightarrow> float64 \<Rightarrow> float64" where
  "fmul NaN b = NaN"
| "fmul a NaN = NaN"
| "fmul (Fin a) (Fin b) = Fin (a * b)"
| "fmul PInf (Fin b) = (if b = 0 then NaN else if 0 < b then PInf else NInf)"
| "fmul NInf (Fin b) = (if b = 0 then NaN else if 0 < b then NInf else PInf)"
| "fmul (Fin a) PInf = (if a = 0 then NaN else if 0 < a then PInf else NInf)"
| "fmul (Fin a) NInf = (if a = 0 then NaN else if 0 < a then NInf else PInf)"
| "fmul PInf PInf = PInf"
| "fmul NInf NInf = PInf"
| "fmul PInf NInf = NInf"
| "fmul NInf PInf = NInf"

fun fdiv :: "float64 \<Rightarrow> float64 \<Rightarrow> float64" where
  "fdiv NaN b = NaN"
| "fdiv a NaN = NaN"
| "fdiv (Fin a) (Fin b) =
     (if b = 0 then (if a = 0 then NaN else if 0 < a then PInf else NInf) else Fin (a / b))"
| "fdiv (Fin a) PInf = Fin 0"
| "fdiv (Fin a) NInf = Fin 0"
| "fdiv PInf (Fin b) = (if b < 0 then NInf else PInf)"
| "fdiv NInf (Fin b) = (if b < 0 then PInf else NInf)"
| "fdiv a b = NaN"

text \<open>The comparisons \<open><\<close>, \<open>>\<close> and \<open>!=\<close>: every ordered comparison with NaN is false,
  and NaN differs from everything, itself included.\<close>

fun flt :: "float64 \<Rightarrow> float64 \<Rightarrow> bool" where
  "flt NaN b = False"
| "flt a NaN = False"
| "flt (Fin a) (Fin b) = (a < b)"
| "flt a NInf = False"
| "flt NInf b = True"
| "flt PInf b = False"
| "flt (Fin a) PInf = True"

definition fgt :: "float64 \<Rightarrow> float64 \<Rightarrow> bool" where
  "fgt a b = flt b a"

definition fne :: "float64 \<Rightarrow> float64 \<Rightarrow> bool" where
  "fne a b = (a = NaN \<or> b = NaN \<or> a \<noteq> b)"

text \<open>\<open>float64(n)\<close> for a slice length or a count \<open>n\<close>.\<close>

definition ofCount :: "nat \<Rightarrow> float64" where
  "ofCount n = Fin (real n)"

text \<open>\<open>sort.Float64s\<close>: increasing order, NaN before every other value.  The order is total
  on the model's values, so the sorted slice is unique and an insertion sort computes it.\<close>

definition sortLe :: "float64 \<Rightarrow> float64 \<Rightarrow> bool" where
  "sortLe a b = (a = NaN \<or> (b \<noteq> NaN \<and> \<not> flt b a))"

fun insertFloat :: "float64 \<Rightarrow> float64 list \<Rightarrow> float64 list" where
  "insertFloat x [] = [x]"
| "insertFloat x (v # vs) = (if sortLe x v then x # v # vs else v # insertFloat x vs)"

definition Float64s :: "float64 list \<Rightarrow> float64 list" where
  "Float64s xs = foldr insertFloat xs []"

text \<open>Run-time panics of the Go program; the code has no error values of its own.\<close>

datatype error = IndexOutOfRange | NilPointer | IntnNonPositive | MakeNegative

text \<open>Slice indexing \<open>xs[i]\<close> with its bounds check.\<close>

definition idx :: "'a list \<Rightarrow> int \<Rightarrow> error + 'a" where
  "idx xs i = (if 0 \<le> i \<and> i < int (length xs) then Inr (xs ! nat i) else Inl IndexOutOfRange)"

text \<open>
  \<open>math/rand\<close>'s process-wide generator is the stream of its future raw outputs;
  \<open>rand.Intn(n)\<close> panics for \<open>n <= 0\<close> and otherwise consumes one output and returns a
  value in \<open>[0, n)\<close>.
\<close>

type_synonym rng = "nat stream"

definition Intn :: "int \<Rightarrow> rng \<Rightarrow> error + int \<times> rng" where
  "Intn n g = (if n \<le> 0 then Inl IntnNonPositive else Inr (int (shd g) mod n, stl g))"

text \<open>
  A \<open>map[float64]int\<close> used as a counter is the list of its entries in order of first
  insertion.  A NaN key never equals a stored key, so every NaN makes a new entry.
\<close>

type_synonym counts = "(float64 \<times> nat) list"

fun incr :: "float64 \<Rightarrow> counts \<Rightarrow> counts" where
  "incr k [] = [(k, 1)]"
| "incr k ((k', c) # es) = (if fne k k' then (k', c) # incr k es else (k', c + 1) # es)"

definition countAll :: "float64 list \<Rightarrow> counts" where
  "countAll ys = foldl (\<lambda>m k. incr k m) [] ys"

text \<open>
  Go leaves the order in which \<open>range\<close> visits a map unspecified.  The order is a
  parameter of the model: a function from the entries to the sequence in which the loop
  sees them.
\<close>

type_synonym range_order = "counts \<Rightarrow> counts"

text \<open>
  The structs.  A pointer field is an \<open>option\<close>, \<open>None\<close> being \<open>nil\<close>.  Of the \<open>int\<close>s,
  \<open>depth\<close> (and \<open>MaxDepth\<close>, its initial value) is the one the code decrements without
  a lower bound, so it is a 64-bit word; the others are only compared and used as sizes
  and indices, and are unbounded integers.
\<close>

datatype Node = Node (FeatureIndex: int) (Threshold: float64) (Prediction: float64)
  (Left: "Node option") (Right: "Node option")

record DecisionTree =
  Root :: "Node option"
  MaxDepth :: "64 word"
  MaxFeatures :: int
  Task :: string

record RandomForest =
  Trees :: "DecisionTree option list"
  NumTrees :: int
  rfMaxDepth :: "64 word"
  rfMaxFeatures :: int
  rfTask :: string

definition NewRandomForest :: "int \<Rightarrow> 64 word \<Rightarrow> int \<Rightarrow> string \<Rightarrow> error + RandomForest" where
  "NewRandomForest numTrees maxDepth maxFeatures task =
     (if numTrees < 0 then Inl MakeNegative
      else Inr \<lparr>Trees = replicate (nat numTrees) None, NumTrees = numTrees,
                rfMaxDepth = maxDepth, rfMaxFeatures = maxFeatures, rfTask = task\<rparr>)"

definition NewDecisionTree :: "64 word \<Rightarrow> int \<Rightarrow> string \<Rightarrow> DecisionTree" where
  "NewDecisionTree maxDepth maxFeatures task =
     \<lparr>Root = None, MaxDepth = maxDepth, MaxFeatures = maxFeatures, Task = task\<rparr>"


section \<open>Prediction\<close>

text \<open>\<open>traverseTree\<close>: \<open>node\<close> is a pointer; reading a field of \<open>nil\<close> panics.\<close>

fun traverseTree :: "float64 list \<Rightarrow> Node option \<Rightarrow> error + float64" where
  "traverseTree sample None = Inl NilPointer"
| "traverseTree sample (Some (Node featureIndex threshold prediction left right)) =
     (if left = None \<and> right = None then Inr prediction
      else (case idx sample featureIndex of
              Inl e \<Rightarrow> Inl e
            | Inr v \<Rightarrow> if flt v threshold then traverseTree sample left
                       else traverseTree sample right))"

text \<open>\<open>majorityVote\<close> (the methods of \<open>DecisionTree\<close> and of \<open>RandomForest\<close> have the same
  body): count, then scan the counts in \<open>range\<close> order, keeping the first strictly larger
  count.\<close>

fun scanCounts :: "counts \<Rightarrow> float64 \<Rightarrow> nat \<Rightarrow> float64" where
  "scanCounts [] majorityPrediction maxCount = majorityPrediction"
| "scanCounts ((prediction, cnt) # es) majorityPrediction maxCount =
     (if maxCount < cnt then scanCounts es prediction cnt
      else scanCounts es majorityPrediction maxCount)"

definition majorityVote :: "range_order \<Rightarrow> float64 list \<Rightarrow> float64" where
  "majorityVote ro predictions = scanCounts (ro (countAll predictions)) (Fin 0) 0"

text \<open>\<open>mean\<close> (again the same body for both receivers).\<close>

definition mean :: "float64 list \<Rightarrow> float64" where
  "mean ys = fdiv (foldl fadd (Fin 0) ys) (ofCount (length ys))"

definition getLeafPrediction :: "range_order \<Rightarrow> DecisionTree \<Rightarrow> float64 list \<Rightarrow> float64" where
  "getLeafPrediction ro dt y =
     (if Task dt = ''classification'' then majorityVote ro y else mean y)"

definition PredictDecisionTree :: "DecisionTree option \<Rightarrow> float64 list \<Rightarrow> error + float64" where
  "PredictDecisionTree dt sample =
     (case dt of None \<Rightarrow> Inl NilPointer | Some t \<Rightarrow> traverseTree sample (Root t))"

text \<open>The loop of \<open>PredictRandomForest\<close> over \<open>rf.Trees\<close>: the call is evaluated, then the
  result is stored at \<open>predictions[i]\<close>.\<close>

fun predictLoop :: "float64 list \<Rightarrow> DecisionTree option list \<Rightarrow> nat \<Rightarrow> float64 list
    \<Rightarrow> error + float64 list" where
  "predictLoop sample [] i predictions = Inr predictions"
| "predictLoop sample (tree # ts) i predictions =
     (case PredictDecisionTree tree sample of
        Inl e \<Rightarrow> Inl e
      | Inr p \<Rightarrow> if i < length predictions
                 then predictLoop sample ts (Suc i) (predictions[i := p])
                 else Inl IndexOutOfRange)"

definition PredictRandomForest :: "range_order \<Rightarrow> RandomForest \<Rightarrow> float64 list
    \<Rightarrow> error + float64" where
  "PredictRandomForest ro rf sample =
     (if NumTrees rf < 0 then Inl MakeNegative
      else (case predictLoop sample (Trees rf) 0 (replicate (nat (NumTrees rf)) (Fin 0)) of
              Inl e \<Rightarrow> Inl e
            | Inr predictions \<Rightarrow>
                Inr (if rfTask rf = ''classification'' then majorityVote ro predictions
                     else if rfTask rf = ''regression'' then mean predictions
                     else NaN)))"

section \<open>Impurity and split search\<close>

text \<open>\<open>giniImpurity\<close> sums over the class counts.  Every summand is finite, and finite
  values are added exactly, so the order in which \<open>range\<close> visits the map does not change
  the sum; the model adds in insertion order.\<close>

definition giniImpurity :: "float64 list \<Rightarrow> float64" where
  "giniImpurity y =
     foldl (\<lambda>impurity (label, cnt).
              let prob = fdiv (ofCount cnt) (ofCount (length y))
              in fadd impurity (fmul prob (fsub (Fin 1) prob)))
       (Fin 0) (countAll y)"

text \<open>\<open>math.Pow(x, 2)\<close>.\<close>

definition pow2 :: "float64 \<Rightarrow> float64" where
  "pow2 x = fmul x x"

definition meanSquaredError :: "float64 list \<Rightarrow> float64" where
  "meanSquaredError y =
     fdiv (foldl (\<lambda>mse v. fadd mse (pow2 (fsub v (mean y)))) (Fin 0) y) (ofCount (length y))"

definition calculateScore :: "DecisionTree \<Rightarrow> float64 list \<Rightarrow> float64 list \<Rightarrow> float64" where
  "calculateScore dt leftY rightY =
     (let leftSize = ofCount (length leftY);
          rightSize = ofCount (length rightY);
          totalSize = fadd leftSize rightSize
      in if Task dt = ''classification'' then
           fneg (fadd (fmul (fdiv leftSize totalSize) (giniImpurity leftY))
                      (fmul (fdiv rightSize totalSize) (giniImpurity rightY)))
         else if Task dt = ''regression'' then
           fneg (fadd (fmul (fdiv leftSize totalSize) (meanSquaredError leftY))
                      (fmul (fdiv rightSize totalSize) (meanSquaredError rightY)))
         else NaN)"

text \<open>The column \<open>X[i][featureIndex]\<close>, row by row.\<close>

fun columnOf :: "float64 list list \<Rightarrow> int \<Rightarrow> error + float64 list" where
  "columnOf [] featureIndex = Inr []"
| "columnOf (row # X) featureIndex =
     (case idx row featureIndex of
        Inl e \<Rightarrow> Inl e
      | Inr v \<Rightarrow> (case columnOf X featureIndex of
                    Inl e \<Rightarrow> Inl e
                  | Inr vs \<Rightarrow> Inr (v # vs)))"

definition splitPoints :: "float64 list \<Rightarrow> float64 list" where
  "splitPoints featureValues =
     map (\<lambda>i. fdiv (fadd (featureValues ! i) (featureValues ! (i + 1))) (Fin 2))
       [0..<length featureValues - 1]"

text \<open>The inner loop over the rows: \<open>value[featureIndex]\<close> is read, then \<open>y[i]\<close>; the label
  list is walked in step with the rows.\<close>

fun partitionLabels :: "float64 list list \<Rightarrow> float64 list \<Rightarrow> int \<Rightarrow> float64
    \<Rightarrow> error + float64 list \<times> float64 list" where
  "partitionLabels [] y featureIndex threshold = Inr ([], [])"
| "partitionLabels (value # X) y featureIndex threshold =
     (case idx value featureIndex of
        Inl e \<Rightarrow> Inl e
      | Inr v \<Rightarrow>
         (case y of
            [] \<Rightarrow> Inl IndexOutOfRange
          | label # y' \<Rightarrow>
             (case partitionLabels X y' featureIndex threshold of
                Inl e \<Rightarrow> Inl e
              | Inr (leftY, rightY) \<Rightarrow>
                  if flt v threshold then Inr (label # leftY, rightY)
                  else Inr (leftY, label # rightY))))"

fun evalSplits :: "DecisionTree \<Rightarrow> float64 list list \<Rightarrow> float64 list \<Rightarrow> int \<Rightarrow> float64 list
    \<Rightarrow> float64 \<Rightarrow> float64 \<Rightarrow> error + float64 \<times> float64" where
  "evalSplits dt X y featureIndex [] bestThreshold bestScore = Inr (bestThreshold, bestScore)"
| "evalSplits dt X y featureIndex (threshold # ts) bestThreshold bestScore =
     (case partitionLabels X y featureIndex threshold of
        Inl e \<Rightarrow> Inl e
      | Inr (leftY, rightY) \<Rightarrow>
          (let score = calculateScore dt leftY rightY
           in if fgt score bestScore then evalSplits dt X y featureIndex ts threshold score
              else evalSplits dt X y featureIndex ts bestThreshold bestScore))"

definition findBestSplitForFeature :: "DecisionTree \<Rightarrow> float64 list list \<Rightarrow> float64 list \<Rightarrow> int
    \<Rightarrow> error + float64 \<times> float64" where
  "findBestSplitForFeature dt X y featureIndex =
     (case columnOf X featureIndex of
        Inl e \<Rightarrow> Inl e
      | Inr featureValues \<Rightarrow>
          if length X = 0 then Inl MakeNegative
          else evalSplits dt X y featureIndex (splitPoints (Float64s featureValues))
                 (Fin 0) NInf)"

fun bestOver :: "DecisionTree \<Rightarrow> float64 list list \<Rightarrow> float64 list \<Rightarrow> int list
    \<Rightarrow> int \<Rightarrow> float64 \<Rightarrow> float64 \<Rightarrow> error + int \<times> float64" where
  "bestOver dt X y [] bestFeatureIndex bestThreshold bestScore =
     Inr (bestFeatureIndex, bestThreshold)"
| "bestOver dt X y (featureIndex # fs) bestFeatureIndex bestThreshold bestScore =
     (case findBestSplitForFeature dt X y featureIndex of
        Inl e \<Rightarrow> Inl e
      | Inr (threshold, score) \<Rightarrow>
          if fgt score bestScore then bestOver dt X y fs featureIndex threshold score
          else bestOver dt X y fs bestFeatureIndex bestThreshold bestScore)"

definition findBestSplit :: "DecisionTree \<Rightarrow> float64 list list \<Rightarrow> float64 list \<Rightarrow> int list
    \<Rightarrow> error + int \<times> float64" where
  "findBestSplit dt X y selectedFeatures = bestOver dt X y selectedFeatures (- 1) PInf NInf"

fun splitData :: "float64 list list \<Rightarrow> float64 list \<Rightarrow> int \<Rightarrow> float64
    \<Rightarrow> error + (float64 list list \<times> float64 list) \<times> (float64 list list \<times> float64 list)" where
  "splitData [] y featureIndex threshold = Inr (([], []), ([], []))"
| "splitData (row # X) y featureIndex threshold =
     (case idx row featureIndex of
        Inl e \<Rightarrow> Inl e
      | Inr v \<Rightarrow>
         (case y of
            [] \<Rightarrow> Inl IndexOutOfRange
          | label # y' \<Rightarrow>
             (case splitData X y' featureIndex threshold of
                Inl e \<Rightarrow> Inl e
              | Inr ((leftX, leftY), (rightX, rightY)) \<Rightarrow>
                  if flt v threshold then Inr ((row # leftX, label # leftY), (rightX, rightY))
                  else Inr ((leftX, leftY), (row # rightX, label # rightY)))))"


section \<open>Training\<close>

text \<open>\<open>isSameClass\<close>: \<open>y[i] != y[0]\<close> for \<open>i\<close> from 1.\<close>

definition isSameClass :: "float64 list \<Rightarrow> bool" where
  "isSameClass y = (case y of [] \<Rightarrow> True | y0 # ys \<Rightarrow> list_all (\<lambda>v. \<not> fne v y0) ys)"

text \<open>\<open>isSameValue\<close>: the inner loop over \<open>j\<close>, from 1 as in the source, compares
  \<open>X[i][j]\<close> with \<open>X[0][j]\<close>; the outer loop runs over the rows from 1.\<close>

function sameFrom :: "float64 list \<Rightarrow> float64 list \<Rightarrow> nat \<Rightarrow> error + bool" where
  "sameFrom rowi row0 j =
     (if j < length rowi then
        (case idx row0 (int j) of
           Inl e \<Rightarrow> Inl e
         | Inr w \<Rightarrow> if fne (rowi ! j) w then Inr False else sameFrom rowi row0 (j + 1))
      else Inr True)"
  by pat_completeness auto
termination
  by (relation "measure (\<lambda>(rowi, row0, j). length rowi - j)") auto

fun sameRows :: "float64 list list \<Rightarrow> float64 list \<Rightarrow> error + bool" where
  "sameRows [] row0 = Inr True"
| "sameRows (rowi # rows) row0 =
     (case sameFrom rowi row0 1 of
        Inl e \<Rightarrow> Inl e
      | Inr same \<Rightarrow> if same then sameRows rows row0 else Inr False)"

definition isSameValue :: "float64 list list \<Rightarrow> error + bool" where
  "isSameValue X = (case X of [] \<Rightarrow> Inr True | row0 # rows \<Rightarrow> sameRows rows row0)"

text \<open>\<open>selectFeatures\<close>: \<open>make([]int, dt.MaxFeatures)\<close>, then one \<open>rand.Intn\<close> per slot.\<close>

fun drawFeatures :: "nat \<Rightarrow> int \<Rightarrow> rng \<Rightarrow> error + int list \<times> rng" where
  "drawFeatures 0 numFeatures g = Inr ([], g)"
| "drawFeatures (Suc k) numFeatures g =
     (case Intn numFeatures g of
        Inl e \<Rightarrow> Inl e
      | Inr (f, g1) \<Rightarrow>
          (case drawFeatures k numFeatures g1 of
             Inl e \<Rightarrow> Inl e
           | Inr (fs, g2) \<Rightarrow> Inr (f # fs, g2)))"

definition selectFeatures :: "DecisionTree \<Rightarrow> int \<Rightarrow> rng \<Rightarrow> error + int list \<times> rng" where
  "selectFeatures dt numFeatures g =
     (if MaxFeatures dt < 0 then Inl MakeNegative
      else drawFeatures (nat (MaxFeatures dt)) numFeatures g)"

text \<open>\<open>bootstrapSample\<close>: \<open>numSamples\<close> draws, each copying \<open>X[index]\<close> and \<open>y[index]\<close>.\<close>

fun drawSamples :: "nat \<Rightarrow> float64 list list \<Rightarrow> float64 list \<Rightarrow> int \<Rightarrow> rng
    \<Rightarrow> error + (float64 list list \<times> float64 list) \<times> rng" where
  "drawSamples 0 X y numSamples g = Inr (([], []), g)"
| "drawSamples (Suc k) X y numSamples g =
     (case Intn numSamples g of
        Inl e \<Rightarrow> Inl e
      | Inr (index, g1) \<Rightarrow>
          (case idx X index of
             Inl e \<Rightarrow> Inl e
           | Inr row \<Rightarrow>
               (case idx y index of
                  Inl e \<Rightarrow> Inl e
                | Inr label \<Rightarrow>
                    (case drawSamples k X y numSamples g1 of
                       Inl e \<Rightarrow> Inl e
                     | Inr ((XSample, ySample), g2) \<Rightarrow>
                         Inr ((row # XSample, label # ySample), g2)))))"

definition bootstrapSample :: "float64 list list \<Rightarrow> float64 list \<Rightarrow> int \<Rightarrow> rng
    \<Rightarrow> error + (float64 list list \<times> float64 list) \<times> rng" where
  "bootstrapSample X y numSamples g =
     (if numSamples < 0 then Inl MakeNegative
      else drawSamples (nat numSamples) X y numSamples g)"

text \<open>
  \<open>buildTree\<close>.  \<open>depth\<close> is a Go \<open>int\<close>: \<open>depth - 1\<close> wraps, and only \<open>depth == 0\<close>
  stops the descent, so the recursion is bounded by the unsigned value of \<open>depth\<close>.
  The result is a pointer: \<open>None\<close> is \<open>nil\<close>.
\<close>

function buildTree :: "range_order \<Rightarrow> DecisionTree \<Rightarrow> float64 list list \<Rightarrow> float64 list
    \<Rightarrow> 64 word \<Rightarrow> rng \<Rightarrow> error + Node option \<times> rng" where
  "buildTree ro dt X y depth g =
     (if length y = 0 then Inr (None, g)
      else if depth = 0 \<or> isSameClass y then
        Inr (Some (Node 0 (Fin 0) (getLeafPrediction ro dt y) None None), g)
      else
        (case isSameValue X of
           Inl e \<Rightarrow> Inl e
         | Inr same \<Rightarrow>
            if same then Inr (Some (Node 0 (Fin 0) (getLeafPrediction ro dt y) None None), g)
            else
              (case idx X 0 of
                 Inl e \<Rightarrow> Inl e
               | Inr row0 \<Rightarrow>
              (case selectFeatures dt (int (length row0)) g of
                 Inl e \<Rightarrow> Inl e
               | Inr (selectedFeatures, g1) \<Rightarrow>
              (case findBestSplit dt X y selectedFeatures of
                 Inl e \<Rightarrow> Inl e
               | Inr (bestFeatureIndex, bestThreshold) \<Rightarrow>
              (case splitData X y bestFeatureIndex bestThreshold of
                 Inl e \<Rightarrow> Inl e
               | Inr ((leftX, leftY), (rightX, rightY)) \<Rightarrow>
              (case buildTree ro dt leftX leftY (depth - 1) g1 of
                 Inl e \<Rightarrow> Inl e
               | Inr (leftNode, g2) \<Rightarrow>
              (case buildTree ro dt rightX rightY (depth - 1) g2 of
                 Inl e \<Rightarrow> Inl e
               | Inr (rightNode, g3) \<Rightarrow>
                   Inr (Some (Node bestFeatureIndex bestThreshold (Fin 0) leftNode rightNode),
                        g3)))))))))"
  by pat_completeness auto
termination
proof (relation "measure (\<lambda>(ro, dt, X, y, depth, g). unat depth)")
  show "wf (measure (\<lambda>(ro, dt, X, y, depth, g). unat depth))"
    by simp
qed (simp_all add: unat_minus_one unat_gt_0)

definition TrainDecisionTree :: "range_order \<Rightarrow> DecisionTree \<Rightarrow> float64 list list
    \<Rightarrow> float64 list \<Rightarrow> rng \<Rightarrow> error + DecisionTree \<times> rng" where
  "TrainDecisionTree ro dt X y g =
     (case buildTree ro dt X y (MaxDepth dt) g of
        Inl e \<Rightarrow> Inl e
      | Inr (node, g1) \<Rightarrow> Inr (dt\<lparr>Root := node\<rparr>, g1))"

text \<open>\<open>TrainRandomForest\<close>: the loop \<open>for i := 0; i < rf.NumTrees; i++\<close>; the store
  \<open>rf.Trees[i] = tree\<close> is bounds-checked.\<close>

function trainLoop :: "range_order \<Rightarrow> RandomForest \<Rightarrow> float64 list list \<Rightarrow> float64 list
    \<Rightarrow> int \<Rightarrow> rng \<Rightarrow> error + RandomForest \<times> rng" where
  "trainLoop ro rf X y i g =
     (if i < NumTrees rf then
        (case bootstrapSample X y (int (length X)) g of
           Inl e \<Rightarrow> Inl e
         | Inr ((XSample, ySample), g1) \<Rightarrow>
             (case TrainDecisionTree ro
                     (NewDecisionTree (rfMaxDepth rf) (rfMaxFeatures rf) (rfTask rf))
                     XSample ySample g1 of
                Inl e \<Rightarrow> Inl e
              | Inr (tree, g2) \<Rightarrow>
                  if 0 \<le> i \<and> i < int (length (Trees rf))
                  then trainLoop ro (rf\<lparr>Trees := (Trees rf)[nat i := Some tree]\<rparr>) X y (i + 1) g2
                  else Inl IndexOutOfRange))
      else Inr (rf, g))"
  by pat_completeness auto
termination
  by (relation "measure (\<lambda>(ro, rf, X, y, i, g). nat (NumTrees rf - i))") auto

definition TrainRandomForest :: "range_order \<Rightarrow> RandomForest \<Rightarrow> float64 list list
    \<Rightarrow> float64 list \<Rightarrow> rng \<Rightarrow> error + RandomForest \<times> rng" where
  "TrainRandomForest ro rf X y g = trainLoop ro rf X y 0 g"

declare sameFrom.simps [simp del]
declare buildTree.simps [simp del]
declare trainLoop.simps [simp del]

section \<open>Shapes of trees\<close>

text \<open>The numbers of edges of the root-to-leaf paths of a tree; as in \<open>traverseTree\<close>, a
  leaf is a node whose two children are \<open>nil\<close>.\<close>

fun pathLengths :: "Node \<Rightarrow> nat list" where
  "pathLengths (Node f t p l r) =
     (if l = None \<and> r = None then [0]
      else map Suc ((case l of None \<Rightarrow> [] | Some n \<Rightarrow> pathLengths n) @
                    (case r of None \<Rightarrow> [] | Some n \<Rightarrow> pathLengths n)))"


section \<open>Example inputs\<close>

definition exClassifier :: DecisionTree where
  "exClassifier = \<lparr>Root = None, MaxDepth = 1, MaxFeatures = 1, Task = ''classification''\<rparr>"

definition exRegressor :: DecisionTree where
  "exRegressor = \<lparr>Root = None, MaxDepth = 1, MaxFeatures = 1, Task = ''regression''\<rparr>"

definition exRows :: "float64 list list" where
  "exRows = [[Fin 0, Fin 1], [Fin 0, Fin 2]]"

definition exLabels :: "float64 list" where
  "exLabels = [Fin 0, Fin 1]"

definition exForest :: RandomForest where
  "exForest = \<lparr>Trees = [None], NumTrees = 1, rfMaxDepth = 1, rfMaxFeatures = 3,
                rfTask = ''classification''\<rparr>"

definition exEmptyForest :: RandomForest where
  "exEmptyForest = \<lparr>Trees = [], NumTrees = 0, rfMaxDepth = 1, rfMaxFeatures = 1,
                     rfTask = ''classification''\<rparr>"

definition exFiveRows :: "float64 list list" where
  "exFiveRows = [[Fin 1], [Fin 2], [Fin 3], [Fin 4], [Fin 5]]"

definition exFourLabels :: "float64 list" where
  "exFourLabels = [Fin 1, Fin 0, Fin 1, Fin 0]"

definition exTrainedForest :: RandomForest where
  "exTrainedForest =
     \<lparr>Trees = [Some \<lparr>Root = Some (Node 1 (Fin (3 / 2)) (Fin 0)
                                   (Some (Node 0 (Fin 0) (Fin 0) None None))
                                   (Some (Node 0 (Fin 0) (Fin 1) None None))),
                      MaxDepth = 1, MaxFeatures = 3, Task = ''classification''\<rparr>],
      NumTrees = 1, rfMaxDepth = 1, rfMaxFeatures = 3, rfTask = ''classification''\<rparr>"


definition exFirstColumnRows :: "float64 list list" where
  "exFirstColumnRows = [[Fin 0, Fin 5], [Fin 1, Fin 5]]"

section \<open>The impurity criterion as the specification words it\<close>



section \<open>Prediction as the specification words it\<close>




definition maxCount :: "counts \<Rightarrow> nat" where
  "maxCount es = foldr max (map snd es) 0"



section \<open>Dependence on the generator\<close>



section \<open>Evaluation rules\<close>

lemmas eval_defs = majorityVote_def mean_def getLeafPrediction_def PredictDecisionTree_def
  PredictRandomForest_def giniImpurity_def pow2_def meanSquaredError_def calculateScore_def
  splitPoints_def findBestSplitForFeature_def findBestSplit_def isSameClass_def isSameValue_def
  selectFeatures_def bootstrapSample_def TrainDecisionTree_def TrainRandomForest_def
  NewDecisionTree_def NewRandomForest_def idx_def Intn_def countAll_def Float64s_def sortLe_def
  fne_def fgt_def fsub_def ofCount_def Let_def sameFrom.simps buildTree.simps trainLoop.simps
  exClassifier_def exRegressor_def exRows_def exLabels_def exForest_def exEmptyForest_def
  exFiveRows_def exFourLabels_def exTrainedForest_def exFirstColumnRows_def eval_nat_numeral

section \<open>Empty partitions\<close>

text \<open>
  C4 (as the code has it).  A build step that receives an empty label vector returns
  \<open>nil\<close>: no node, no error, the feature rows are not read and the generator is not
  advanced.  The code has no \<open>EmptyPartitionError\<close>.
\<close>

theorem buildTree_empty_labels: "buildTree ro dt X [] depth g = Inr (None, g)"
  by (simp add: buildTree.simps)

text \<open>C4, counterexample to the claim as stated: on an empty label vector the build step
  does not fail.\<close>

theorem buildTree_empty_no_error:
  "buildTree id exClassifier [[Fin 1]] [] 3 (sconst 0) = Inr (None, sconst 0)"
  by (simp add: buildTree.simps)


section \<open>Gini impurity and the split score\<close>

lemma gini_fold:
  "0 < n \<Longrightarrow>
   foldl (\<lambda>impurity (label, cnt).
            let prob = fdiv (ofCount cnt) (ofCount n)
            in fadd impurity (fmul prob (fsub (Fin 1) prob))) (Fin a) es =
   Fin (a + (\<Sum>(k, c)\<leftarrow>es. (real c / real n) * (1 - real c / real n)))"
  by (induction es arbitrary: a) (auto simp: ofCount_def fsub_def Let_def)

lemma giniImpurity_Fin:
  "giniImpurity y =
   Fin (\<Sum>(k, c)\<leftarrow>countAll y. (real c / real (length y)) * (1 - real c / real (length y)))"
proof (cases y)
  case Nil
  then show ?thesis by (simp add: giniImpurity_def countAll_def)
next
  case (Cons v vs)
  then have "0 < length y" by simp
  then show ?thesis unfolding giniImpurity_def by (simp add: gini_fold)
qed

lemma countAll_same_fold:
  "c \<noteq> NaN \<Longrightarrow> foldl (\<lambda>m k. incr k m) [(c, m)] (replicate n c) = [(c, m + n)]"
  by (induction n arbitrary: m) (simp_all add: fne_def)

lemma countAll_replicate:
  "c \<noteq> NaN \<Longrightarrow> countAll (replicate (Suc n) c) = [(c, Suc n)]"
  using countAll_same_fold [of c 1 n] by (simp add: countAll_def)

lemma calculateScore_left_empty:
  assumes "Task dt = ''classification''" "ys \<noteq> []" "giniImpurity ys = Fin s"
  shows "calculateScore dt [] ys = Fin (- s)"
  using assms by (simp add: calculateScore_def ofCount_def giniImpurity_Fin countAll_def)

lemma calculateScore_right_empty:
  assumes "Task dt = ''classification''" "ys \<noteq> []" "giniImpurity ys = Fin s"
  shows "calculateScore dt ys [] = Fin (- s)"
  using assms by (simp add: calculateScore_def ofCount_def giniImpurity_Fin countAll_def)

text \<open>
  C10.  \<open>giniImpurity\<close> of the empty label list is 0, the value it also has on a list of
  one repeated label; so for a classification split with an empty side \<open>calculateScore\<close>
  is finite, and is just the negated impurity of the other side.
\<close>

theorem degenerate_split_score:
  assumes "Task dt = ''classification''" and "ys \<noteq> []"
  shows "giniImpurity [] = Fin 0 \<and>
         (c \<noteq> NaN \<longrightarrow> giniImpurity (replicate (Suc n) c) = Fin 0) \<and>
         (\<exists>s. giniImpurity ys = Fin s \<and>
              calculateScore dt [] ys = Fin (- s) \<and>
              calculateScore dt ys [] = Fin (- s))"
proof -
  have e: "giniImpurity [] = Fin 0"
    by (simp add: giniImpurity_def countAll_def)
  have p: "giniImpurity (replicate (Suc n) c) = Fin 0" if "c \<noteq> NaN"
    using that by (simp add: giniImpurity_Fin countAll_replicate del: replicate.simps)
  obtain s where s: "giniImpurity ys = Fin s"
    using giniImpurity_Fin by blast
  show ?thesis
    using e p s calculateScore_left_empty [OF assms s] calculateScore_right_empty [OF assms s]
    by blast
qed

theorem degenerate_split_score_witness:
  "Task exClassifier = ''classification'' \<and> [Fin 0, Fin 1] \<noteq> [] \<and> Fin 1 \<noteq> NaN \<and>
   giniImpurity [] = Fin 0 \<and> giniImpurity (replicate (Suc 1) (Fin 1)) = Fin 0 \<and>
   giniImpurity [Fin 0, Fin 1] = Fin (1 / 2) \<and>
   calculateScore exClassifier [] [Fin 0, Fin 1] = Fin (- (1 / 2)) \<and>
   calculateScore exClassifier [Fin 0, Fin 1] [] = Fin (- (1 / 2))"
  using degenerate_split_score [of exClassifier "[Fin 0, Fin 1]" "Fin 1" 1]
  by (simp add: eval_defs)











section \<open>The recursion of the builder\<close>

lemma unat_pred: "depth \<noteq> 0 \<Longrightarrow> unat (depth - 1) < unat (depth :: 64 word)"
  by (simp add: unat_minus_one unat_gt_0)

lemma buildTree_cases [consumes 1, case_names Empty Leaf Internal]:
  assumes "buildTree ro dt X y depth g = Inr (res, g')"
  obtains
    "y = []" "res = None" "g' = g"
  | "y \<noteq> []" "depth = 0 \<or> isSameClass y \<or> isSameValue X = Inr True"
    "res = Some (Node 0 (Fin 0) (getLeafPrediction ro dt y) None None)" "g' = g"
  | row0 sel g1 bf bt leftX leftY rightX rightY l g2 r where
    "y \<noteq> []" "depth \<noteq> 0" "\<not> isSameClass y" "isSameValue X = Inr False"
    "idx X 0 = Inr row0"
    "selectFeatures dt (int (length row0)) g = Inr (sel, g1)"
    "findBestSplit dt X y sel = Inr (bf, bt)"
    "splitData X y bf bt = Inr ((leftX, leftY), (rightX, rightY))"
    "buildTree ro dt leftX leftY (depth - 1) g1 = Inr (l, g2)"
    "buildTree ro dt rightX rightY (depth - 1) g2 = Inr (r, g')"
    "res = Some (Node bf bt (Fin 0) l r)"
  using assms
  by (subst (asm) buildTree.simps) (auto split: if_splits sum.splits prod.splits)

lemma buildTree_pathLengths:
  "buildTree ro dt X y depth g = Inr (Some t, g') \<Longrightarrow> \<forall>n\<in>set (pathLengths t). n \<le> unat depth"
proof (induction "unat depth" arbitrary: depth X y g t g' rule: less_induct)
  case less
  from less.prems show ?case
  proof (cases rule: buildTree_cases)
    case Empty
    then show ?thesis by simp
  next
    case Leaf
    then show ?thesis by simp
  next
    case (Internal row0 sel g1 bf bt leftX leftY rightX rightY l g2 r)
    note lt = unat_pred [OF Internal(2)]
    have l: "\<forall>n\<in>set (case l of None \<Rightarrow> [] | Some n' \<Rightarrow> pathLengths n'). n < unat depth"
    proof (cases l)
      case None
      then show ?thesis by simp
    next
      case (Some n')
      with less.hyps [OF lt] Internal(9) have "\<forall>n\<in>set (pathLengths n'). n \<le> unat (depth - 1)"
        by simp
      with Some lt show ?thesis by auto
    qed
    have r: "\<forall>n\<in>set (case r of None \<Rightarrow> [] | Some n' \<Rightarrow> pathLengths n'). n < unat depth"
    proof (cases r)
      case None
      then show ?thesis by simp
    next
      case (Some n')
      with less.hyps [OF lt] Internal(10) have "\<forall>n\<in>set (pathLengths n'). n \<le> unat (depth - 1)"
        by simp
      with Some lt show ?thesis by auto
    qed
    from Internal(11) have t: "t = Node bf bt (Fin 0) l r" by simp
    show ?thesis
      unfolding t using l r by (auto simp: Suc_le_eq)
  qed
qed

lemma sint_nonneg_unat:
  fixes w :: "64 word"
  assumes "0 \<le> sint w"
  shows "sint w = int (unat w)"
proof -
  have "sint w < 2 ^ (LENGTH(64) - 1)" by (rule sint_lt)
  then have "sint w < 2 ^ 64" by simp
  with assms have "take_bit 64 (sint w) = sint w"
    by (simp add: take_bit_int_eq_self)
  then have "uint w = sint w"
    using uint_sint [of w] by simp
  then show ?thesis by simp
qed

text \<open>
  C9.  In a tree built by \<open>TrainDecisionTree\<close> with \<open>MaxDepth >= 0\<close>, every root-to-leaf
  path has at most \<open>MaxDepth\<close> edges.
\<close>

theorem TrainDecisionTree_depth_bound:
  assumes "0 \<le> sint (MaxDepth dt)"
    and "TrainDecisionTree ro dt X y g = Inr (dt', g')"
    and "Root dt' = Some t"
  shows "\<forall>n\<in>set (pathLengths t). int n \<le> sint (MaxDepth dt)"
proof -
  from assms(2,3) have b: "buildTree ro dt X y (MaxDepth dt) g = Inr (Some t, g')"
    by (auto simp: TrainDecisionTree_def split: sum.splits)
  have "sint (MaxDepth dt) = int (unat (MaxDepth dt))"
    by (rule sint_nonneg_unat [OF assms(1)])
  moreover have "int n \<le> int (unat (MaxDepth dt))" if "n \<in> set (pathLengths t)" for n
    using buildTree_pathLengths [OF b] that by (simp only: of_nat_le_iff)
  ultimately show ?thesis by (intro ballI) (simp only:)
qed

lemma ex_train:
  "TrainDecisionTree id exClassifier exRows exLabels (sconst 0) =
     Inr (exClassifier\<lparr>Root := Some (Node 0 (Fin 0) (Fin 0) None
             (Some (Node 0 (Fin 0) (Fin 0) None None)))\<rparr>, sconst 0)"
  by (simp add: eval_defs)

theorem TrainDecisionTree_depth_bound_witness:
  "0 \<le> sint (MaxDepth exClassifier) \<and>
   TrainDecisionTree id exClassifier exRows exLabels (sconst 0) =
     Inr (exClassifier\<lparr>Root := Some (Node 0 (Fin 0) (Fin 0) None
             (Some (Node 0 (Fin 0) (Fin 0) None None)))\<rparr>, sconst 0) \<and>
   pathLengths (Node 0 (Fin 0) (Fin 0) None (Some (Node 0 (Fin 0) (Fin 0) None None))) = [1] \<and>
   int 1 \<le> sint (MaxDepth exClassifier)"
proof -
  have h: "0 \<le> sint (MaxDepth exClassifier)"
    by (simp add: exClassifier_def)
  have r: "Root (exClassifier\<lparr>Root := Some (Node 0 (Fin 0) (Fin 0) None
             (Some (Node 0 (Fin 0) (Fin 0) None None)))\<rparr>) =
           Some (Node 0 (Fin 0) (Fin 0) None (Some (Node 0 (Fin 0) (Fin 0) None None)))"
    by simp
  show ?thesis
    using h ex_train TrainDecisionTree_depth_bound [OF h ex_train r] by simp
qed

section \<open>Training a forest\<close>

lemma idx_append: "i < int (length y) \<Longrightarrow> idx (y @ extra) i = idx y i"
  by (auto simp: idx_def nth_append)

lemma drawSamples_extra:
  "n \<le> int (length y) \<Longrightarrow> drawSamples k X (y @ extra) n g = drawSamples k X y n g"
proof (induction k arbitrary: g)
  case 0
  show ?case by simp
next
  case (Suc k)
  show ?case
  proof (cases "n \<le> 0")
    case True
    then show ?thesis by (simp add: Intn_def)
  next
    case False
    then have "int (shd g) mod n < n" by simp
    with Suc.prems have "idx (y @ extra) (int (shd g) mod n) = idx y (int (shd g) mod n)"
      by (intro idx_append) linarith
    with False Suc.IH [OF Suc.prems] show ?thesis
      by (simp add: Intn_def split: sum.splits prod.splits)
  qed
qed

lemma bootstrapSample_extra:
  "n \<le> int (length y) \<Longrightarrow> bootstrapSample X (y @ extra) n g = bootstrapSample X y n g"
  by (simp add: bootstrapSample_def drawSamples_extra)

lemma trainLoop_extra:
  "length X \<le> length y \<Longrightarrow> trainLoop ro rf X (y @ extra) i g = trainLoop ro rf X y i g"
proof (induction "nat (NumTrees rf - i)" arbitrary: rf i g rule: less_induct)
  case less
  have b: "bootstrapSample X (y @ extra) (int (length X)) g = bootstrapSample X y (int (length X)) g"
    using less.prems by (simp add: bootstrapSample_extra)
  have step: "trainLoop ro (rf\<lparr>Trees := ts\<rparr>) X (y @ extra) (i + 1) g' =
              trainLoop ro (rf\<lparr>Trees := ts\<rparr>) X y (i + 1) g'" if "i < NumTrees rf" for ts g'
    using that less.prems by (intro less.hyps) simp_all
  show ?case
    by (subst trainLoop.simps, subst (2) trainLoop.simps)
       (auto simp: b step split: sum.splits prod.splits)
qed

text \<open>
  C1 (as the code has it).  \<open>TrainRandomForest\<close> checks neither its hyperparameters nor
  the dimensions of its data.  With \<open>NumTrees <= 0\<close> it returns without error and leaves
  the forest as it was; and when there are more labels than feature rows, the labels
  beyond the row count are never read, so training fits on the truncated label vector.
\<close>

theorem TrainRandomForest_unvalidated:
  "(NumTrees rf \<le> 0 \<longrightarrow> TrainRandomForest ro rf X y g = Inr (rf, g)) \<and>
   (length X \<le> length y \<longrightarrow>
      TrainRandomForest ro rf X (y @ extra) g = TrainRandomForest ro rf X y g)"
  by (simp add: TrainRandomForest_def trainLoop_extra) (simp add: trainLoop.simps)

theorem TrainRandomForest_unvalidated_witness:
  "NumTrees exEmptyForest \<le> 0 \<and> length exRows \<le> length exLabels \<and>
   TrainRandomForest id exEmptyForest exRows exLabels (sconst 0) = Inr (exEmptyForest, sconst 0) \<and>
   TrainRandomForest id exForest exRows (exLabels @ [Fin 7]) (0 ## 1 ## sconst 0) =
   TrainRandomForest id exForest exRows exLabels (0 ## 1 ## sconst 0)"
  using TrainRandomForest_unvalidated [where rf = exEmptyForest and ro = id and X = exRows
      and y = exLabels and g = "sconst 0"]
    TrainRandomForest_unvalidated [where rf = exForest and ro = id and X = exRows
      and y = exLabels and extra = "[Fin 7]" and g = "0 ## 1 ## sconst 0"]
  by (simp add: exEmptyForest_def exRows_def exLabels_def)

text \<open>
  C1, counterexample to the claim as stated: training succeeds with \<open>NumTrees = 0\<close>, with
  \<open>MaxFeatures = 3\<close> on two features, with \<open>MaxDepth = -1\<close>, and with five feature rows
  and four labels.
\<close>

theorem TrainRandomForest_accepts_invalid:
  "TrainRandomForest id exEmptyForest exRows exLabels (sconst 0) = Inr (exEmptyForest, sconst 0) \<and>
   TrainRandomForest id exForest exRows exLabels (0 ## 1 ## sconst 0) =
     Inr (exForest\<lparr>Trees := [Some \<lparr>Root = Some (Node 0 (Fin 0) (Fin 0) None
            (Some (Node 0 (Fin 0) (Fin 0) None None))),
          MaxDepth = 1, MaxFeatures = 3, Task = ''classification''\<rparr>]\<rparr>, sconst 0) \<and>
   TrainRandomForest id (exForest\<lparr>rfMaxDepth := - 1, rfMaxFeatures := 1\<rparr>) exRows exLabels
       (0 ## 1 ## sconst 1) =
     Inr (exForest\<lparr>rfMaxDepth := - 1, rfMaxFeatures := 1,
            Trees := [Some \<lparr>Root = Some (Node 1 (Fin (3 / 2)) (Fin 0)
              (Some (Node 0 (Fin 0) (Fin 0) None None))
              (Some (Node 0 (Fin 0) (Fin 1) None None))),
          MaxDepth = - 1, MaxFeatures = 1, Task = ''classification''\<rparr>]\<rparr>, sconst 1) \<and>
   length exFiveRows = 5 \<and> length exFourLabels = 4 \<and>
   TrainRandomForest id exForest exFiveRows exFourLabels (sconst 0) =
     Inr (exForest\<lparr>Trees := [Some \<lparr>Root = Some (Node 0 (Fin 0) (Fin 1) None None),
          MaxDepth = 1, MaxFeatures = 3, Task = ''classification''\<rparr>]\<rparr>, sconst 0)"
  by (simp add: eval_defs)

section \<open>Prediction on forests that are not trained, and on samples of another width\<close>

lemma idx_append_Inr: "idx sample i = Inr v \<Longrightarrow> idx (sample @ extra) i = Inr v"
  by (auto simp: idx_def nth_append split: if_splits)

lemma traverseTree_extra:
  "traverseTree sample node = Inr v \<Longrightarrow> traverseTree (sample @ extra) node = Inr v"
proof (induction sample node rule: traverseTree.induct)
  case (1 sample)
  then show ?case by simp
next
  case (2 sample featureIndex threshold prediction left right)
  show ?case
  proof (cases "left = None \<and> right = None")
    case True
    with "2.prems" show ?thesis by simp
  next
    case False
    with "2.prems" obtain x where x: "idx sample featureIndex = Inr x"
      by (auto split: sum.splits)
    note x' = idx_append_Inr [OF x, of extra]
    have c: "\<not> (left = None \<and> right = None)" by (rule False)
    have c': "(left = None \<and> right = None) = False" using False by blast
    have u: "traverseTree s (Some (Node featureIndex threshold prediction left right)) =
               (case idx s featureIndex of
                  Inl e \<Rightarrow> Inl e
                | Inr v \<Rightarrow> if flt v threshold then traverseTree s left
                           else traverseTree s right)" for s
      by (simp only: traverseTree.simps c' if_False)
    show ?thesis
    proof (cases "flt x threshold")
      case True
      from "2.prems" have "traverseTree sample left = Inr v"
        by (simp only: u x sum.case True if_True)
      from "2.IH"(1) [OF c x True this] show ?thesis
        by (simp only: u x' sum.case True if_True)
    next
      case f: False
      from "2.prems" have "traverseTree sample right = Inr v"
        by (simp only: u x sum.case f if_False)
      from "2.IH"(2) [OF c x f this] show ?thesis
        by (simp only: u x' sum.case f if_False)
    qed
  qed
qed

lemma PredictDecisionTree_extra:
  "PredictDecisionTree tree sample = Inr v \<Longrightarrow> PredictDecisionTree tree (sample @ extra) = Inr v"
  by (auto simp: PredictDecisionTree_def traverseTree_extra split: option.splits)

lemma predictLoop_extra:
  "predictLoop sample ts i ps = Inr vs \<Longrightarrow> predictLoop (sample @ extra) ts i ps = Inr vs"
proof (induction ts arbitrary: i ps)
  case Nil
  then show ?case by simp
next
  case (Cons tree ts)
  from Cons.prems obtain p where p: "PredictDecisionTree tree sample = Inr p"
    and i: "i < length ps" and r: "predictLoop sample ts (Suc i) (ps[i := p]) = Inr vs"
    by (auto split: sum.splits if_splits)
  show ?case
    using PredictDecisionTree_extra [OF p, of extra] i Cons.IH [OF r] by simp
qed

text \<open>
  C2 (as the code has it).  \<open>PredictRandomForest\<close> checks nothing.  On a forest with no
  trees it returns 0 for classification and NaN otherwise; on a forest fresh from
  \<open>NewRandomForest\<close> with at least one tree slot it panics on the \<open>nil\<close> tree; and a sample
  with more entries than the trees read is accepted, the extra entries changing nothing.
\<close>

theorem PredictRandomForest_unvalidated:
  "(Trees rf = [] \<and> NumTrees rf = 0 \<and> ro [] = [] \<longrightarrow>
      PredictRandomForest ro rf sample =
        Inr (if rfTask rf = ''classification'' then Fin 0 else NaN)) \<and>
   (0 < numTrees \<and> NewRandomForest numTrees maxDepth maxFeatures task = Inr rf \<longrightarrow>
      PredictRandomForest ro rf sample = Inl NilPointer) \<and>
   (PredictRandomForest ro rf sample = Inr v \<longrightarrow>
      PredictRandomForest ro rf (sample @ extra) = Inr v)"
proof (intro conjI impI)
  assume "Trees rf = [] \<and> NumTrees rf = 0 \<and> ro [] = []"
  then show "PredictRandomForest ro rf sample =
      Inr (if rfTask rf = ''classification'' then Fin 0 else NaN)"
    by (simp add: PredictRandomForest_def majorityVote_def countAll_def mean_def ofCount_def)
next
  assume a: "0 < numTrees \<and> NewRandomForest numTrees maxDepth maxFeatures task = Inr rf"
  then obtain k where k: "nat numTrees = Suc k"
    by (cases "nat numTrees") auto
  from a have "Trees rf = replicate (nat numTrees) None" and "NumTrees rf = numTrees"
    by (auto simp: NewRandomForest_def split: if_splits)
  with a k show "PredictRandomForest ro rf sample = Inl NilPointer"
    by (simp add: PredictRandomForest_def PredictDecisionTree_def)
next
  assume "PredictRandomForest ro rf sample = Inr v"
  then show "PredictRandomForest ro rf (sample @ extra) = Inr v"
    by (auto simp: PredictRandomForest_def predictLoop_extra split: if_splits sum.splits)
qed

theorem PredictRandomForest_unvalidated_witness:
  "Trees exEmptyForest = [] \<and> NumTrees exEmptyForest = 0 \<and> id ([] :: counts) = [] \<and>
   PredictRandomForest id exEmptyForest [Fin 1] = Inr (Fin 0) \<and>
   (0 :: int) < 1 \<and> NewRandomForest 1 1 3 ''classification'' = Inr exForest \<and>
   PredictRandomForest id exForest [Fin 1] = Inl NilPointer \<and>
   PredictRandomForest id exTrainedForest [Fin 0, Fin 1] = Inr (Fin 0) \<and>
   PredictRandomForest id exTrainedForest ([Fin 0, Fin 1] @ [Fin 9]) = Inr (Fin 0)"
proof -
  have t: "PredictRandomForest id exTrainedForest [Fin 0, Fin 1] = Inr (Fin 0)"
    by (simp add: eval_defs)
  have n: "NewRandomForest 1 1 3 ''classification'' = Inr exForest"
    by (simp add: eval_defs)
  show ?thesis
    using t n
      PredictRandomForest_unvalidated [where rf = exEmptyForest and ro = id and sample = "[Fin 1]"]
      PredictRandomForest_unvalidated [where rf = exForest and ro = id and sample = "[Fin 1]"
        and numTrees = 1 and maxDepth = 1 and maxFeatures = 3 and task = "''classification''"]
      PredictRandomForest_unvalidated [where rf = exTrainedForest and ro = id
        and sample = "[Fin 0, Fin 1]" and v = "Fin 0" and extra = "[Fin 9]"]
    by (simp add: exEmptyForest_def)
qed

text \<open>
  C2, counterexample to the claim as stated: prediction on the empty forest returns a
  value, and a forest trained on rows of two features predicts for a sample of three.
\<close>

theorem PredictRandomForest_no_error:
  "PredictRandomForest id exEmptyForest [Fin 1] = Inr (Fin 0) \<and>
   TrainRandomForest id exForest exRows exLabels (0 ## 1 ## sconst 1) =
     Inr (exTrainedForest, sconst 1) \<and>
   length (exRows ! 0) = 2 \<and>
   PredictRandomForest id exTrainedForest [Fin 0, Fin 1, Fin 9] = Inr (Fin 0)"
  by (simp add: eval_defs)

section \<open>Prediction: traversal and aggregation\<close>














section \<open>Leaves\<close>








section \<open>Children of internal nodes\<close>























section \<open>Randomness\<close>















end
